theory Spec2Isabelle
  imports Complex_Main
begin

section \<open>KAFY trajectory tokenizer and detokenizer (utilFunctions.py)\<close>

text \<open>
  A shallow embedding of \<^verbatim>\<open>KAFY/utilFunctions.py\<close>. Python floats are modelled as
  real numbers, Python strings as \<open>string\<close> (characters with code points below 256),
  dictionaries as maps, and every exception the code can raise as the left summand of
  a result of type \<open>error + 'a\<close>.
\<close>

subsection \<open>Exceptions\<close>

datatype error = TypeError | ValueError | IndexError | AttributeError | H3Error

subsection \<open>The grid index (the h3 package)\<close>

text \<open>
  The h3 package is imported, not part of the repository. Its three functions that
  the module calls are taken as parameters: \<open>geo_to_h3\<close> and \<open>h3_to_geo\<close> may raise
  (h3 rejects a resolution outside its range and a string that is no cell),
  \<open>h3_is_valid\<close> answers for every string. \<open>h3_to_geo\<close> returns the pair
  (latitude, longitude).
\<close>

type_synonym token = string

record h3 =
  geo_to_h3 :: "real \<Rightarrow> real \<Rightarrow> int \<Rightarrow> error + token"
  h3_to_geo :: "token \<Rightarrow> error + real \<times> real"
  h3_is_valid :: "token \<Rightarrow> bool"

subsection \<open>Tokenizer\<close>

definition token2centroid_h3_yx :: "h3 \<Rightarrow> real \<Rightarrow> real \<Rightarrow> int \<Rightarrow> error + token" where
  "token2centroid_h3_yx g lat lon res = geo_to_h3 g lat lon res"

text \<open>
  The list comprehension of \<open>tokenize_trajectory\<close> visits the points from left to
  right; the first call that raises ends it.
\<close>

fun tokenize_trajectory :: "h3 \<Rightarrow> (real \<times> real) list \<Rightarrow> int \<Rightarrow> error + token list" where
  "tokenize_trajectory g [] resolution = Inr []"
| "tokenize_trajectory g ((lat, lon) # trajectory) resolution =
     (case token2centroid_h3_yx g lat lon resolution of
        Inl e \<Rightarrow> Inl e
      | Inr token \<Rightarrow>
          (case tokenize_trajectory g trajectory resolution of
             Inl e \<Rightarrow> Inl e
           | Inr tokens \<Rightarrow> Inr (token # tokens)))"

subsection \<open>Functions of Python's standard library\<close>

text \<open>
  \<open>math.radians\<close>, \<open>math.degrees\<close>, \<open>math.atan2\<close>, the float operator \<open>%\<close>
  and the builtin \<open>round\<close> are not code of the repository; they are written here over
  the reals with their documented meaning. \<open>atan2 b a\<close> is the angle of the point
  \<open>(a, b)\<close> in \<open>(-pi, pi]\<close>, and \<open>0\<close> at the origin. \<open>float_mod a b\<close> has the sign of
  \<open>b\<close>. \<open>py_round\<close> rounds to a number of decimals, halves to the even neighbour.

  This is an idealisation of IEEE double arithmetic: the rounding of every operation,
  the overflow of a difference to infinity, the \<open>ValueError\<close> of \<open>math.sin\<close> and
  \<open>math.cos\<close> on an infinite argument, and the binary value that a decimal literal
  denotes are outside it. The theorems below take \<open>calculate_bearing\<close> and
  \<open>py_round\<close> as given functions; their values are computed only at the concrete
  inputs of the witnesses.
\<close>

definition radians :: "real \<Rightarrow> real" where
  "radians d = d * pi / 180"

definition degrees :: "real \<Rightarrow> real" where
  "degrees r = r * 180 / pi"

definition atan2 :: "real \<Rightarrow> real \<Rightarrow> real" where
  "atan2 b a =
     (if 0 < a then arctan (b / a)
      else if a < 0 \<and> 0 \<le> b then arctan (b / a) + pi
      else if a < 0 then arctan (b / a) - pi
      else if 0 < b then pi / 2
      else if b < 0 then - (pi / 2)
      else 0)"

definition float_mod :: "real \<Rightarrow> real \<Rightarrow> real" where
  "float_mod a b = a - b * of_int \<lfloor>a / b\<rfloor>"

definition py_round :: "real \<Rightarrow> nat \<Rightarrow> real" where
  "py_round v ndigits =
     (let scaled = v * 10 ^ ndigits;
          lower = \<lfloor>scaled\<rfloor>;
          rest = scaled - of_int lower
      in of_int (if rest < 1 / 2 then lower
                 else if 1 / 2 < rest then lower + 1
                 else if even lower then lower
                 else lower + 1) / 10 ^ ndigits)"

text \<open>
  \<open>means[label]\<close>: a label from \<open>-len\<close> up to \<open>-1\<close> selects a row counted from the
  end, a label outside \<open>-len .. len - 1\<close> raises \<open>IndexError\<close>.
\<close>

definition getitem :: "'a list \<Rightarrow> int \<Rightarrow> error + 'a" where
  "getitem means label =
     (if 0 \<le> label \<and> label < int (length means) then Inr (means ! nat label)
      else if - int (length means) \<le> label \<and> label < 0
        then Inr (means ! nat (int (length means) + label))
      else Inl IndexError)"

subsection \<open>Point and the bearing\<close>

record Point =
  x :: real
  y :: real

text \<open>
  \<open>Point.calculate_bearing(self, point_a, point_b)\<close>: both points are pairs
  (latitude, longitude); \<open>self\<close> is not used by the body.
\<close>

definition calculate_bearing :: "real \<times> real \<Rightarrow> real \<times> real \<Rightarrow> real" where
  "calculate_bearing point_a point_b =
     (let lat1 = radians (fst point_a);
          lat2 = radians (fst point_b);
          diff_long = radians (snd point_b - snd point_a);
          x = sin diff_long * cos lat2;
          y = cos lat1 * sin lat2 - (sin lat1 * cos lat2 * cos diff_long);
          initial_bearing = atan2 x y;
          initial_bearing = degrees initial_bearing;
          compass_bearing = float_mod (initial_bearing + 360) 360
      in compass_bearing)"

subsection \<open>The detokenizer's store\<close>

text \<open>
  \<open>h3_clusters\<close> maps a token to a dictionary with the keys \<open>"x"\<close>, \<open>"y"\<close> and
  \<open>"current_count"\<close>; \<open>h3_kmeans\<close> maps a token to a pair of a fitted model and
  its table of means. Both are unpickled from files that are not in the repository.
  Of the model only \<open>predict\<close> is called, on one feature: it is a function from the
  angle to a label. The table of means is a sequence of triples (x, y, count).
\<close>

record cluster =
  cluster_x :: real
  cluster_y :: real
  current_count :: int

type_synonym kmeans = "(real \<Rightarrow> int) \<times> (real \<times> real \<times> real) list"

record DeTokenizer =
  h3_clusters :: "token \<rightharpoonup> cluster"
  h3_kmeans :: "token \<rightharpoonup> kmeans"

subsection \<open>The three tiers\<close>

definition token2point_h3_centroid :: "h3 \<Rightarrow> DeTokenizer \<Rightarrow> token \<Rightarrow> error + Point" where
  "token2point_h3_centroid g self token =
     (case h3_to_geo g token of
        Inl e \<Rightarrow> Inl e
      | Inr (lat, lon) \<Rightarrow> Inr \<lparr>x = lon, y = lat\<rparr>)"

definition token2point_data_centroid :: "h3 \<Rightarrow> DeTokenizer \<Rightarrow> token \<Rightarrow> error + Point" where
  "token2point_data_centroid g self token =
     (case h3_clusters self token of
        Some cl \<Rightarrow> Inr \<lparr>x = cluster_x cl, y = cluster_y cl\<rparr>
      | None \<Rightarrow> token2point_h3_centroid g self token)"

text \<open>
  \<open>previous_point\<close> is \<open>None\<close> or a \<open>Point\<close>; a \<open>Point\<close> defines neither
  \<open>__bool__\<close> nor \<open>__len__\<close>, so \<open>not previous_point\<close> holds for \<open>None\<close> only.
\<close>

definition token2point_cluster_centroid ::
  "h3 \<Rightarrow> DeTokenizer \<Rightarrow> token \<Rightarrow> Point option \<Rightarrow> error + Point" where
  "token2point_cluster_centroid g self token previous_point =
     (case token2point_data_centroid g self token of
        Inl e \<Rightarrow> Inl e
      | Inr c \<Rightarrow>
          (case h3_kmeans self token of
             None \<Rightarrow> Inr c
           | Some (m, means) \<Rightarrow>
               (case previous_point of
                  None \<Rightarrow> Inr c
                | Some prev \<Rightarrow>
                    if (case h3_clusters self token of
                          Some cl \<Rightarrow> current_count cl \<le> 20
                        | None \<Rightarrow> False)
                    then Inr c
                    else
                      (let angle = calculate_bearing (y prev, x prev) (y c, x c)
                       in case getitem means (m angle) of
                            Inl e \<Rightarrow> Inl e
                          | Inr (mx, my, _) \<Rightarrow> Inr \<lparr>x = mx, y = my\<rparr>))))"

subsection \<open>Calling the method through the class\<close>

text \<open>
  \<open>detokenize_trajectory\<close> reaches the third tier as
  \<open>DeTokenizer.token2point_cluster_centroid(token, previous_point)\<close>: the attribute is
  looked up on the class, so it is the plain function of the three parameters
  \<open>(self, token, previous_point)\<close>, and no instance is bound to \<open>self\<close>. Python binds
  the positional arguments before the body runs and raises \<open>TypeError\<close> when their
  number is not three. Three arguments of the annotated types (a \<open>DeTokenizer\<close>, a
  string, \<open>None\<close> or a \<open>Point\<close>) run the body; three arguments of other types are
  outside the interface and stand for a failed attribute access. No call in the
  module passes three arguments.
\<close>

datatype pyval = PyNone | PyStr string | PyPoint Point | PyDeTokenizer DeTokenizer

fun DeTokenizer_token2point_cluster_centroid :: "h3 \<Rightarrow> pyval list \<Rightarrow> error + Point" where
  "DeTokenizer_token2point_cluster_centroid g [PyDeTokenizer self, PyStr token, PyNone] =
     token2point_cluster_centroid g self token None"
| "DeTokenizer_token2point_cluster_centroid g [PyDeTokenizer self, PyStr token, PyPoint p] =
     token2point_cluster_centroid g self token (Some p)"
| "DeTokenizer_token2point_cluster_centroid g [self, token, previous_point] = Inl AttributeError"
| "DeTokenizer_token2point_cluster_centroid g args = Inl TypeError"

definition pyval_of_previous :: "Point option \<Rightarrow> pyval" where
  "pyval_of_previous previous_point =
     (case previous_point of None \<Rightarrow> PyNone | Some p \<Rightarrow> PyPoint p)"

subsection \<open>Detokenizer\<close>

text \<open>
  The loop of \<open>detokenize_trajectory\<close> over the state
  \<open>(detokenized_trajectory, previous_point)\<close>. The expression that resolves a token
  (line 76 of the source) is the parameter \<open>resolve\<close>, so that the loop can be
  studied for the call the source makes and for the bound method alike. An exception
  of \<open>resolve\<close> ends the loop.
\<close>

fun detokenize_loop ::
  "h3 \<Rightarrow> (token \<Rightarrow> Point option \<Rightarrow> error + Point) \<Rightarrow> token list \<Rightarrow>
   (real \<times> real) list \<times> Point option \<Rightarrow> error + (real \<times> real) list \<times> Point option" where
  "detokenize_loop g resolve [] state = Inr state"
| "detokenize_loop g resolve (token # rest) (detokenized_trajectory, previous_point) =
     (if h3_is_valid g token then
        (case resolve token previous_point of
           Inl e \<Rightarrow> Inl e
         | Inr point \<Rightarrow>
             detokenize_loop g resolve rest
               (detokenized_trajectory @ [(py_round (y point) 6, py_round (x point) 6)],
                Some point))
      else detokenize_loop g resolve rest (detokenized_trajectory, previous_point))"

definition class_call :: "h3 \<Rightarrow> token \<Rightarrow> Point option \<Rightarrow> error + Point" where
  "class_call g token previous_point =
     DeTokenizer_token2point_cluster_centroid g [PyStr token, pyval_of_previous previous_point]"

definition detokenize_trajectory :: "h3 \<Rightarrow> token list \<Rightarrow> error + (real \<times> real) list" where
  "detokenize_trajectory g tokenized_trajectory =
     (case detokenize_loop g (class_call g) tokenized_trajectory ([], None) of
        Inl e \<Rightarrow> Inl e
      | Inr (detokenized_trajectory, previous_point) \<Rightarrow> Inr detokenized_trajectory)"

subsection \<open>Metadata loader\<close>






subsection \<open>Concrete inputs\<close>

text \<open>
  Inputs on which the functions are evaluated below: a grid index that knows two
  cells, a store with a cluster and a model for each of them, and an empty store.
\<close>

definition example_h3 :: h3 where
  "example_h3 =
     \<lparr>geo_to_h3 = (\<lambda>lat lon res.
        if res < 0 \<or> 15 < res then Inl H3Error
        else if lon < -122.4183 then Inr ''8928308280fffff'' else Inr ''8928308280bffff''),
      h3_to_geo = (\<lambda>t.
        if t = ''8928308280fffff'' then Inr (37.7767023, -122.4184593)
        else if t = ''8928308280bffff'' then Inr (37.7752702, -122.4180883)
        else Inl H3Error),
      h3_is_valid = (\<lambda>t. t = ''8928308280fffff'' \<or> t = ''8928308280bffff'')\<rparr>"

definition example_predict :: "real \<Rightarrow> int" where
  "example_predict angle = (if angle < 90 then 0 else 1)"

definition example_store :: DeTokenizer where
  "example_store =
     \<lparr>h3_clusters =
        [''8928308280fffff'' \<mapsto> \<lparr>cluster_x = 0, cluster_y = 4 / 10 ^ 7, current_count = 20\<rparr>,
         ''8928308280bffff'' \<mapsto> \<lparr>cluster_x = 0, cluster_y = 0, current_count = 21\<rparr>],
      h3_kmeans =
        [''8928308280fffff'' \<mapsto> (example_predict, [(1, 2, 30), (3, 4, 25)]),
         ''8928308280bffff'' \<mapsto> (example_predict, [(89.5, 0.25, 30), (90.5, -0.25, 25)])]\<rparr>"

definition empty_store :: DeTokenizer where
  "empty_store = \<lparr>h3_clusters = Map.empty, h3_kmeans = Map.empty\<rparr>"

section \<open>Theorems\<close>

subsection \<open>The concrete inputs\<close>

lemma example_h3_is_valid:
  "h3_is_valid example_h3 t = (t = ''8928308280fffff'' \<or> t = ''8928308280bffff'')"
  by (simp add: example_h3_def)


lemma example_h3_geo_to_h3:
  "geo_to_h3 example_h3 lat lon res =
     (if res < 0 \<or> 15 < res then Inl H3Error
      else if lon < -122.4183 then Inr ''8928308280fffff'' else Inr ''8928308280bffff'')"
  by (simp add: example_h3_def)

subsection \<open>Tokenizer\<close>

text \<open>
  C8. \<open>tokenize_trajectory\<close> returns a token list exactly when the grid index
  returns a token for every point, and then the list has the length of the input and
  its i-th token is the grid index's token for the i-th point at the given
  resolution: a map over the points, with nothing carried from one point to the next.
\<close>

theorem tokenize_trajectory_is_map:
  "(tokenize_trajectory g trajectory resolution = Inr tokens) =
     (length tokens = length trajectory \<and>
      map (\<lambda>(lat, lon). token2centroid_h3_yx g lat lon resolution) trajectory = map Inr tokens)"
proof (induction trajectory arbitrary: tokens)
  case Nil
  show ?case by auto
next
  case (Cons p trajectory)
  obtain lat lon where p: "p = (lat, lon)" by (cases p)
  show ?case
  proof (cases "token2centroid_h3_yx g lat lon resolution")
    case (Inl e)
    then show ?thesis by (cases tokens) (auto simp: p)
  next
    case (Inr token)
    show ?thesis
    proof (cases "tokenize_trajectory g trajectory resolution")
      case (Inl e)
      have "map (\<lambda>(lat, lon). token2centroid_h3_yx g lat lon resolution) trajectory \<noteq> map Inr ts" for ts
        using Cons.IH [of ts] Inl by (cases "length ts = length trajectory") (auto dest: map_eq_imp_length_eq)
      then show ?thesis using Inl Inr by (cases tokens) (auto simp: p)
    next
      case r: (Inr toks)
      show ?thesis using Cons.IH r Inr by (cases tokens) (auto simp: p)
    qed
  qed
qed

theorem tokenize_trajectory_is_map_witness:
  "tokenize_trajectory example_h3
     [(37.7767023, -122.4184593), (37.7752702, -122.4180883)] 9 =
     Inr [''8928308280fffff'', ''8928308280bffff''] \<and>
   (\<nexists>tokens. tokenize_trajectory example_h3 [(37.7767023, -122.4184593)] 16 = Inr tokens)"
proof -
  have "tokenize_trajectory example_h3
     [(37.7767023, -122.4184593), (37.7752702, -122.4180883)] 9 =
     Inr [''8928308280fffff'', ''8928308280bffff'']"
    using tokenize_trajectory_is_map [of example_h3
        "[(37.7767023, -122.4184593), (37.7752702, -122.4180883)]" 9
        "[''8928308280fffff'', ''8928308280bffff'']"]
    by (simp add: token2centroid_h3_yx_def example_h3_geo_to_h3)
  moreover have "tokenize_trajectory example_h3 [(37.7767023, -122.4184593)] 16 \<noteq> Inr tokens"
    for tokens
    using tokenize_trajectory_is_map [of example_h3 "[(37.7767023, -122.4184593)]" 16 tokens]
    by (cases tokens) (simp_all add: token2centroid_h3_yx_def example_h3_geo_to_h3)
  ultimately show ?thesis by blast
qed

subsection \<open>Bearing at the concrete inputs\<close>

lemma radians_zero: "radians 0 = 0"
  by (simp add: radians_def)

lemma calculate_bearing_due_south:
  assumes "0 < lat" and "lat < 180"
  shows "calculate_bearing (lat, 0) (0, 0) = 180"
proof -
  have "0 < radians lat" "radians lat < pi"
    using assms pi_gt_zero by (simp_all add: radians_def field_simps)
  then have "0 < sin (radians lat)" by (rule sin_gt_zero)
  then have "atan2 0 (- sin (radians lat)) = pi" by (simp add: atan2_def)
  moreover have "float_mod 540 360 = 180" by (simp add: float_mod_def)
  moreover have "calculate_bearing (lat, 0) (0, 0) =
      float_mod (degrees (atan2 0 (- sin (radians lat))) + 360) 360"
    by (simp add: calculate_bearing_def Let_def radians_zero)
  ultimately show ?thesis by (simp add: degrees_def)
qed

lemma calculate_bearing_south: "calculate_bearing (1 / 2500000, 0) (0, 0) = 180"
  by (rule calculate_bearing_due_south) simp_all

subsection \<open>The three tiers\<close>

text \<open>
  C3. For a token that is a key of neither \<open>h3_clusters\<close> nor \<open>h3_kmeans\<close>, and
  for every \<open>previous_point\<close>, \<open>token2point_cluster_centroid\<close> gives what
  \<open>token2point_h3_centroid\<close> gives: the point whose \<open>x\<close> is the longitude and whose
  \<open>y\<close> is the latitude of the cell's centroid (and the grid index's exception where
  it raises).
\<close>

theorem unknown_token_is_h3_centroid:
  assumes "h3_clusters self token = None" and "h3_kmeans self token = None"
  shows "token2point_cluster_centroid g self token previous_point =
           token2point_h3_centroid g self token \<and>
         token2point_h3_centroid g self token =
           (case h3_to_geo g token of
              Inl e \<Rightarrow> Inl e
            | Inr (lat, lon) \<Rightarrow> Inr \<lparr>x = lon, y = lat\<rparr>)"
  using assms
  by (simp add: token2point_cluster_centroid_def token2point_data_centroid_def
      token2point_h3_centroid_def split: sum.splits)

theorem unknown_token_is_h3_centroid_witness:
  "h3_clusters empty_store ''8928308280fffff'' = None \<and>
   h3_kmeans empty_store ''8928308280fffff'' = None \<and>
   token2point_cluster_centroid example_h3 empty_store ''8928308280fffff'' None =
     Inr \<lparr>x = -122.4184593, y = 37.7767023\<rparr> \<and>
   token2point_cluster_centroid example_h3 empty_store ''8928308280fffff'' (Some \<lparr>x = 1, y = 2\<rparr>) =
     Inr \<lparr>x = -122.4184593, y = 37.7767023\<rparr>"
  using unknown_token_is_h3_centroid [of empty_store "''8928308280fffff''" example_h3 None]
    unknown_token_is_h3_centroid [of empty_store "''8928308280fffff''" example_h3 "Some \<lparr>x = 1, y = 2\<rparr>"]
  by (simp add: empty_store_def example_h3_def)

text \<open>
  C2. For a token whose cluster has \<open>current_count = 20\<close> the result is the data
  centroid \<open>Point(cluster["x"], cluster["y"])\<close>, whatever the model and the previous
  point are. For a token whose cluster has \<open>current_count = 21\<close>, with a model and a
  previous point, the result is the point of the row of means that the model's label
  selects for the bearing from the previous point to the data centroid, provided the
  label is an index of the table of means.
\<close>

theorem count_threshold_boundary:
  assumes "h3_clusters self token = Some cl"
  shows "(current_count cl = 20 \<longrightarrow>
            token2point_data_centroid g self token = Inr \<lparr>x = cluster_x cl, y = cluster_y cl\<rparr> \<and>
            token2point_cluster_centroid g self token previous_point =
              Inr \<lparr>x = cluster_x cl, y = cluster_y cl\<rparr>) \<and>
         (current_count cl = 21 \<and> h3_kmeans self token = Some (m, means) \<and>
          previous_point = Some prev \<and>
          getitem means (m (calculate_bearing (y prev, x prev) (cluster_y cl, cluster_x cl))) =
            Inr (mx, my, mcount) \<longrightarrow>
            token2point_cluster_centroid g self token previous_point = Inr \<lparr>x = mx, y = my\<rparr>)"
  using assms
  by (auto simp: token2point_cluster_centroid_def token2point_data_centroid_def Let_def
      split: option.splits)

theorem count_threshold_boundary_witness:
  "h3_clusters example_store ''8928308280fffff'' =
     Some \<lparr>cluster_x = 0, cluster_y = 4 / 10 ^ 7, current_count = 20\<rparr> \<and>
   h3_kmeans example_store ''8928308280fffff'' = Some (example_predict, [(1, 2, 30), (3, 4, 25)]) \<and>
   token2point_cluster_centroid example_h3 example_store ''8928308280fffff'' (Some \<lparr>x = 5, y = 5\<rparr>) =
     Inr \<lparr>x = 0, y = 4 / 10 ^ 7\<rparr> \<and>
   h3_clusters example_store ''8928308280bffff'' =
     Some \<lparr>cluster_x = 0, cluster_y = 0, current_count = 21\<rparr> \<and>
   h3_kmeans example_store ''8928308280bffff'' =
     Some (example_predict, [(89.5, 0.25, 30), (90.5, -0.25, 25)]) \<and>
   getitem [(89.5, 0.25, 30), (90.5, -0.25, 25 :: real)]
     (example_predict (calculate_bearing (4 / 10 ^ 7, 0) (0, 0))) = Inr (90.5 :: real, -0.25 :: real, 25) \<and>
   token2point_cluster_centroid example_h3 example_store ''8928308280bffff''
     (Some \<lparr>x = 0, y = 4 / 10 ^ 7\<rparr>) = Inr \<lparr>x = 90.5, y = -0.25\<rparr>"
  using count_threshold_boundary [where self = example_store and token = "''8928308280fffff''"
      and cl = "\<lparr>cluster_x = 0, cluster_y = 4 / 10 ^ 7, current_count = 20\<rparr>" and g = example_h3
      and previous_point = "Some \<lparr>x = 5, y = 5\<rparr>"]
    count_threshold_boundary [where self = example_store and token = "''8928308280bffff''"
      and cl = "\<lparr>cluster_x = 0, cluster_y = 0, current_count = 21\<rparr>" and g = example_h3
      and m = example_predict and means = "[(89.5, 0.25, 30), (90.5, -0.25, 25)]"
      and previous_point = "Some \<lparr>x = 0, y = 4 / 10 ^ 7\<rparr>" and prev = "\<lparr>x = 0, y = 4 / 10 ^ 7\<rparr>"
      and mx = "90.5" and my = "-0.25" and mcount = 25]
  by (simp add: example_store_def calculate_bearing_south example_predict_def getitem_def)

subsection \<open>Detokenizer\<close>

lemma class_call_raises: "class_call g token previous_point = Inl TypeError"
  by (cases previous_point) (simp_all add: class_call_def pyval_of_previous_def)

lemma detokenize_loop_class_call:
  "detokenize_loop g (class_call g) tokens state =
     (if \<exists>t \<in> set tokens. h3_is_valid g t then Inl TypeError else Inr state)"
proof (induction tokens arbitrary: state)
  case Nil
  show ?case by simp
next
  case (Cons token rest)
  obtain out prev where st: "state = (out, prev)" by (cases state)
  show ?case using Cons.IH [of "(out, prev)"] by (simp add: st class_call_raises)
qed

lemma detokenize_loop_append:
  "detokenize_loop g resolve (before @ rest) state =
     (case detokenize_loop g resolve before state of
        Inl e \<Rightarrow> Inl e
      | Inr state' \<Rightarrow> detokenize_loop g resolve rest state')"
proof (induction before arbitrary: state)
  case Nil
  show ?case by simp
next
  case (Cons token before)
  obtain out prev where st: "state = (out, prev)" by (cases state)
  show ?case using Cons.IH by (simp add: st split: sum.splits)
qed

lemma detokenize_loop_skip:
  "\<not> h3_is_valid g token \<Longrightarrow>
   detokenize_loop g resolve (token # rest) state = detokenize_loop g resolve rest state"
  by (cases state) simp

text \<open>
  C1. \<open>detokenize_trajectory\<close> does not return for every token sequence: as soon
  as one token of the input passes \<open>h3_is_valid\<close>, the call through the class raises
  \<open>TypeError\<close> (one positional argument is missing), and the exception leaves
  \<open>detokenize_trajectory\<close>.
\<close>

theorem detokenize_trajectory_raises:
  assumes "\<exists>t \<in> set tokenized_trajectory. h3_is_valid g t"
  shows "detokenize_trajectory g tokenized_trajectory = Inl TypeError"
  using assms by (simp add: detokenize_trajectory_def detokenize_loop_class_call)

theorem detokenize_trajectory_raises_witness:
  "detokenize_trajectory example_h3 [''8928308280fffff''] = Inl TypeError"
  using detokenize_trajectory_raises [of "[''8928308280fffff'']" example_h3]
  by (simp add: example_h3_is_valid)

text \<open>
  C4. \<open>detokenize_trajectory\<close> returns a list exactly when no token of the input
  passes \<open>h3_is_valid\<close>, and the list is then empty. So an input whose tokens are all
  valid has an output of its own length only when it is empty; for every other such
  input there is no output.
\<close>

theorem detokenize_trajectory_returns_empty:
  "(detokenize_trajectory g tokenized_trajectory = Inr detokenized_trajectory) =
     (detokenized_trajectory = [] \<and> \<not> (\<exists>t \<in> set tokenized_trajectory. h3_is_valid g t))"
  by (auto simp: detokenize_trajectory_def detokenize_loop_class_call)

theorem detokenize_trajectory_returns_empty_witness:
  "\<not> (\<exists>detokenized_trajectory.
        detokenize_trajectory example_h3 [''8928308280fffff'', ''8928308280bffff''] =
          Inr detokenized_trajectory) \<and>
   detokenize_trajectory example_h3 [''not a cell'', ''8928308280''] = Inr []"
  using detokenize_trajectory_returns_empty [of example_h3 "[''8928308280fffff'', ''8928308280bffff'']"]
    detokenize_trajectory_returns_empty [of example_h3 "[''not a cell'', ''8928308280'']" "[]"]
  by (auto simp: example_h3_is_valid)


lemma example_resolve_first:
  "token2point_cluster_centroid example_h3 example_store ''8928308280fffff'' previous_point =
     Inr \<lparr>x = 0, y = 1 / 2500000\<rparr>"
  by (simp add: token2point_cluster_centroid_def token2point_data_centroid_def example_store_def
      split: option.splits)

lemma example_resolve_second:
  "token2point_cluster_centroid example_h3 example_store ''8928308280bffff''
     (Some \<lparr>x = 0, y = 1 / 2500000\<rparr>) = Inr \<lparr>x = 181 / 2, y = - (1 / 4)\<rparr>"
  by (simp add: token2point_cluster_centroid_def token2point_data_centroid_def example_store_def
      calculate_bearing_south example_predict_def getitem_def)

lemma py_round_examples:
  "py_round 0 6 = 0"
  "py_round (1 / 2500000) 6 = 0"
  "py_round (181 / 2) 6 = 181 / 2"
  "py_round (- (1 / 4)) 6 = - (1 / 4)"
  by (simp_all add: py_round_def Let_def)

text \<open>
  C5. A token that fails \<open>h3_is_valid\<close> is skipped: the loop goes on with the state
  \<open>(detokenized_trajectory, previous_point)\<close> it had, so nothing is appended and
  \<open>previous_point\<close> is unchanged; the next valid token is resolved with that same
  \<open>previous_point\<close>, the last point resolved before the invalid token. This holds for
  every way of resolving a token, and \<open>detokenize_trajectory\<close> itself gives the same
  result with the invalid token removed from its input. (With the call that the
  source makes, no token is ever resolved: see C1.)
\<close>

theorem invalid_token_is_skipped:
  assumes "\<not> h3_is_valid g token"
  shows "detokenize_loop g resolve (token # rest) (detokenized_trajectory, previous_point) =
           detokenize_loop g resolve rest (detokenized_trajectory, previous_point) \<and>
         (h3_is_valid g next_token \<longrightarrow>
            detokenize_loop g resolve (token # next_token # rest)
                (detokenized_trajectory, previous_point) =
              (case resolve next_token previous_point of
                 Inl e \<Rightarrow> Inl e
               | Inr point \<Rightarrow>
                   detokenize_loop g resolve rest
                     (detokenized_trajectory @ [(py_round (y point) 6, py_round (x point) 6)],
                      Some point))) \<and>
         detokenize_trajectory g (before @ token # rest) = detokenize_trajectory g (before @ rest)"
proof -
  have skip: "detokenize_loop g r (token # ts) st = detokenize_loop g r ts st" for r ts st
    using assms by (rule detokenize_loop_skip)
  have "detokenize_loop g (class_call g) (before @ token # rest) ([], None) =
        detokenize_loop g (class_call g) (before @ rest) ([], None)"
    by (simp add: detokenize_loop_append skip split: sum.splits)
  then show ?thesis
    using assms by (simp add: detokenize_trajectory_def)
qed

theorem invalid_token_is_skipped_witness:
  "\<not> h3_is_valid example_h3 ''8928308280'' \<and>
   h3_is_valid example_h3 ''8928308280bffff'' \<and>
   detokenize_loop example_h3 (token2point_cluster_centroid example_h3 example_store)
     [''8928308280fffff'', ''8928308280'', ''8928308280bffff''] ([], None) =
     Inr ([(0, 0), (- (1 / 4), 181 / 2)], Some \<lparr>x = 181 / 2, y = - (1 / 4)\<rparr>) \<and>
   detokenize_loop example_h3 (token2point_cluster_centroid example_h3 example_store)
     [''8928308280fffff'', ''8928308280bffff''] ([], None) =
     Inr ([(0, 0), (- (1 / 4), 181 / 2)], Some \<lparr>x = 181 / 2, y = - (1 / 4)\<rparr>)"
  using invalid_token_is_skipped [where g = example_h3 and token = "''8928308280''"
      and resolve = "token2point_cluster_centroid example_h3 example_store"
      and rest = "[''8928308280bffff'']" and detokenized_trajectory = "[(0, 0)]"
      and previous_point = "Some \<lparr>x = 0, y = 1 / 2500000\<rparr>"
      and next_token = "''8928308280bffff''"]
  by (simp add: example_h3_is_valid example_resolve_first example_resolve_second py_round_examples)






subsection \<open>Metadata loader\<close>












end
